theory Spec2Isabelle
  imports Main "HOL-Library.Sublist" "HOL-Library.Word"
begin

section \<open>Values and exceptions\<close>

text \<open>
  The Python exceptions that the modelled code raises or lets through. The decoder's
  exception (\<open>binascii.Error\<close>, re-raised by \<open>base64.b64decode\<close>) is called
  \<open>DecodeError\<close>, as the specification calls it.
\<close>

datatype error =
    NoSuchWindowException
  | NoSuchElementException
  | IndexError
  | DecodeError
  | TimedOutError
  | CandidateNotFound
  | NoAlertPresentException
  | OtherException string

text \<open>The Python values a method of the modelled classes can hand back.\<close>

datatype pyval = PyNone | PyBool bool


text \<open>Python's \<open>v is True\<close>.\<close>

fun py_is_True :: "pyval \<Rightarrow> bool" where
  "py_is_True (PyBool b) = b"
| "py_is_True PyNone = False"

section \<open>The browser behind \<open>self.selenium\<close>\<close>

type_synonym handle = string

text \<open>
  What the console code reads from an element: its text, and for the canvas the string
  that the script \<open>return arguments[0].toDataURL('image/png');\<close> evaluates to.
\<close>

record element =
  el_text :: string
  toDataURL :: string

text \<open>
  The clock is what \<open>time.time()\<close> reads and \<open>time.sleep\<close> advances, in seconds.
\<close>

record timed =
  clock :: nat

text \<open>
  The Selenium session: the open windows, the page of each window (which may change as
  time passes), the window that \<open>switch_to_window\<close> selected last, and a log of the
  keystrokes and clicks delivered.
\<close>

record browser = timed +
  windows :: "handle list"
  dom :: "handle \<Rightarrow> nat \<Rightarrow> string \<Rightarrow> element option"
  focus :: handle
  keys_sent :: "(string \<times> string) list"
  clicks :: "string list"

definition switch_to_window :: "handle \<Rightarrow> browser \<Rightarrow> (error + unit) \<times> browser" where
  "switch_to_window h b =
     (if h \<in> set (windows b) then (Inr (), b\<lparr>focus := h\<rparr>)
      else (Inl NoSuchWindowException, b))"

definition find_element_by_id :: "string \<Rightarrow> browser \<Rightarrow> error + element" where
  "find_element_by_id i b =
     (case dom b (focus b) (clock b) i of
        None \<Rightarrow> Inl NoSuchElementException
      | Some e \<Rightarrow> Inr e)"

definition execute_script_toDataURL :: "element \<Rightarrow> string" where
  "execute_script_toDataURL canvas = toDataURL canvas"



section \<open>Library functions used by the console\<close>

subsection \<open>\<open>str.split\<close> with a one-character separator\<close>

fun split_str :: "char \<Rightarrow> string \<Rightarrow> string list" where
  "split_str sep [] = [[]]"
| "split_str sep (c # cs) =
     (if c = sep then [] # split_str sep cs
      else (case split_str sep cs of
              [] \<Rightarrow> [[c]]
            | w # ws \<Rightarrow> (c # w) # ws))"

text \<open>List indexing with a non-negative index: out of range raises \<open>IndexError\<close>.\<close>

definition index_list :: "'a list \<Rightarrow> nat \<Rightarrow> error + 'a" where
  "index_list xs i = (if i < length xs then Inr (xs ! i) else Inl IndexError)"

subsection \<open>\<open>re.match\<close> with a pattern of literal characters\<close>

text \<open>
  \<open>re.match\<close> anchors the pattern at the start of the string. The only pattern used,
  \<open>'Connected'\<close>, has no special character, so matching is a comparison character by
  character; the result says whether a match object (not \<open>None\<close>) came back.
\<close>

fun re_match_literal :: "string \<Rightarrow> string \<Rightarrow> bool" where
  "re_match_literal [] s = True"
| "re_match_literal (p # ps) [] = False"
| "re_match_literal (p # ps) (c # cs) = (p = c \<and> re_match_literal ps cs)"

subsection \<open>\<open>base64.b64decode\<close>\<close>

text \<open>
  The table of \<open>binascii.a2b_base64\<close>: the value of each character of the base64
  alphabet; the pad character \<open>=\<close> has an entry too (value 0).
\<close>

definition table_a2b_base64 :: "char \<Rightarrow> nat option" where
  "table_a2b_base64 c =
     (let n = (of_char c :: nat) in
      if 65 \<le> n \<and> n \<le> 90 then Some (n - 65)
      else if 97 \<le> n \<and> n \<le> 122 then Some (n - 71)
      else if 48 \<le> n \<and> n \<le> 57 then Some (n + 4)
      else if n = 43 then Some 62
      else if n = 47 then Some 63
      else if n = 61 then Some 0
      else None)"

text \<open>
  \<open>binascii_find_valid\<close>: the \<open>num+1\<close>-th character of \<open>s\<close> that belongs to the
  table, if there is one.
\<close>

fun binascii_find_valid :: "string \<Rightarrow> nat \<Rightarrow> char option" where
  "binascii_find_valid [] num = None"
| "binascii_find_valid (c # cs) num =
     (if (of_char c :: nat) \<le> 127 \<and> table_a2b_base64 c \<noteq> None
      then (if num = 0 then Some c else binascii_find_valid cs (num - 1))
      else binascii_find_valid cs num)"

text \<open>
  The decoding loop of \<open>binascii.a2b_base64\<close>. Characters above 127, carriage return,
  line feed, space and every character outside the alphabet are skipped; a pad that
  cannot end the data is skipped; a pad that can ends the loop with no bits pending.
  The result is the number of pending bits and the bytes produced.
\<close>

fun a2b_loop :: "string \<Rightarrow> nat \<Rightarrow> nat \<Rightarrow> nat \<Rightarrow> 8 word list \<Rightarrow> nat \<times> 8 word list" where
  "a2b_loop [] quad_pos leftbits leftchar out = (leftbits, out)"
| "a2b_loop (c # cs) quad_pos leftbits leftchar out =
     (if (of_char c :: nat) > 127 \<or> c = CHR 0x0D \<or> c = CHR 0x0A \<or> c = CHR '' ''
      then a2b_loop cs quad_pos leftbits leftchar out
      else if c = CHR ''=''
      then (if quad_pos < 2 \<or>
               (quad_pos = 2 \<and> binascii_find_valid (c # cs) 1 \<noteq> Some (CHR ''=''))
            then a2b_loop cs quad_pos leftbits leftchar out
            else (0, out))
      else (case table_a2b_base64 c of
              None \<Rightarrow> a2b_loop cs quad_pos leftbits leftchar out
            | Some v \<Rightarrow>
                (let quad_pos' = (quad_pos + 1) mod 4;
                     leftchar' = leftchar * 64 + v;
                     leftbits' = leftbits + 6
                 in if leftbits' \<ge> 8
                    then a2b_loop cs quad_pos' (leftbits' - 8)
                           (leftchar' mod 2 ^ (leftbits' - 8))
                           (out @ [word_of_nat (leftchar' div 2 ^ (leftbits' - 8) mod 256)])
                    else a2b_loop cs quad_pos' leftbits' leftchar' out)))"

text \<open>Pending bits at the end are the error "Incorrect padding".\<close>

definition b64decode :: "string \<Rightarrow> error + 8 word list" where
  "b64decode s =
     (case a2b_loop s 0 0 0 [] of
        (leftbits, out) \<Rightarrow> if leftbits \<noteq> 0 then Inl DecodeError else Inr out)"

subsection \<open>\<open>imghdr.what\<close> for PNG\<close>

text \<open>The test of \<open>imghdr\<close> for a PNG file: the first eight bytes are the signature.\<close>

definition png_signature :: "8 word list" where
  "png_signature = [0x89, 0x50, 0x4E, 0x47, 0x0D, 0x0A, 0x1A, 0x0A]"


section \<open>\<open>cfme/common/vm_console.py\<close>\<close>

definition banner_id :: string where "banner_id = ''noVNC_status''"
definition canvas_id :: string where "canvas_id = ''noVNC_canvas''"
definition ctrl_alt_del_id :: string where "ctrl_alt_del_id = ''sendCtrlAltDelButton''"

record VMConsole =
  name :: string
  console_handle :: handle
  appliance_handle :: handle

definition switch_to_appliance :: "VMConsole \<Rightarrow> browser \<Rightarrow> (error + unit) \<times> browser" where
  "switch_to_appliance self b = switch_to_window (appliance_handle self) b"

definition switch_to_console :: "VMConsole \<Rightarrow> browser \<Rightarrow> (error + unit) \<times> browser" where
  "switch_to_console self b = switch_to_window (console_handle self) b"

definition get_banner :: "VMConsole \<Rightarrow> browser \<Rightarrow> (error + string) \<times> browser" where
  "get_banner self b =
     (case switch_to_console self b of
        (Inl e, b1) \<Rightarrow> (Inl e, b1)
      | (Inr _, b1) \<Rightarrow>
          (case find_element_by_id banner_id b1 of
             Inl e \<Rightarrow> (Inl e, b1)
           | Inr el \<Rightarrow>
               (case switch_to_appliance self b1 of
                  (Inl e, b2) \<Rightarrow> (Inl e, b2)
                | (Inr _, b2) \<Rightarrow> (Inr (el_text el), b2))))"

definition get_screen :: "VMConsole \<Rightarrow> browser \<Rightarrow> (error + 8 word list) \<times> browser" where
  "get_screen self b =
     (case switch_to_console self b of
        (Inl e, b1) \<Rightarrow> (Inl e, b1)
      | (Inr _, b1) \<Rightarrow>
          (case find_element_by_id canvas_id b1 of
             Inl e \<Rightarrow> (Inl e, b1)
           | Inr canvas \<Rightarrow>
               (let image_base64_url = execute_script_toDataURL canvas in
                case index_list (split_str (CHR '','') image_base64_url) 1 of
                  Inl e \<Rightarrow> (Inl e, b1)
                | Inr image_base64 \<Rightarrow>
                    (case b64decode image_base64 of
                       Inl e \<Rightarrow> (Inl e, b1)
                     | Inr image_png \<Rightarrow>
                         (case switch_to_appliance self b1 of
                            (Inl e, b2) \<Rightarrow> (Inl e, b2)
                          | (Inr _, b2) \<Rightarrow> (Inr image_png, b2))))))"

definition is_connected :: "VMConsole \<Rightarrow> browser \<Rightarrow> (error + bool) \<times> browser" where
  "is_connected self b =
     (case get_banner self b of
        (Inl e, b1) \<Rightarrow> (Inl e, b1)
      | (Inr banner, b1) \<Rightarrow> (Inr (re_match_literal ''Connected'' banner), b1))"



section \<open>Polling: \<open>wait_for\<close>\<close>

definition time_sleep :: "nat \<Rightarrow> 'a timed_scheme \<Rightarrow> 'a timed_scheme" where
  "time_sleep d w = w\<lparr>clock := clock w + d\<rparr>"

text \<open>The optional \<open>fail_func\<close> runs after each sleep; its exception propagates.\<close>

definition run_fail_func ::
  "('a timed_scheme \<Rightarrow> (error + unit) \<times> 'a timed_scheme) option \<Rightarrow>
   'a timed_scheme \<Rightarrow> (error + unit) \<times> 'a timed_scheme" where
  "run_fail_func fail_func w = (case fail_func of None \<Rightarrow> (Inr (), w) | Some f \<Rightarrow> f w)"

text \<open>
  Modelled from the spec: \<open>wait_for\<close> (the module \<open>utils/wait.py\<close>, published as the
  package \<open>wait_for\<close>) is not among the source files. The specification describes it as
  the polling helper \<open>waitFor(predicate, intervalSeconds, timeoutSeconds, onRetry)\<close> that
  raises on timeout, sleep-based with a fixed interval and a bounded duration, and that
  returns within timeout plus one interval. The loop below polls while the time elapsed
  since the start is at most \<open>num_sec\<close>; a result equal to \<open>fail_condition\<close> is followed
  by a sleep of \<open>delay\<close> seconds and by \<open>fail_func\<close>; any other result is returned with
  the duration; an exception of the polled function propagates; expiry raises
  \<open>TimedOutError\<close>. Only \<open>time.sleep\<close> advances the clock: the time the polled
  function itself takes is not modelled. With \<open>delay = 0\<close> and a function that keeps
  failing the loop does not end, which is the value \<open>None\<close>.
\<close>

partial_function (option) wait_for_loop ::
  "('a timed_scheme \<Rightarrow> (error + pyval) \<times> 'a timed_scheme) \<Rightarrow> pyval \<Rightarrow> nat \<Rightarrow> nat \<Rightarrow>
   ('a timed_scheme \<Rightarrow> (error + unit) \<times> 'a timed_scheme) option \<Rightarrow> nat \<Rightarrow>
   'a timed_scheme \<Rightarrow> ((error + pyval \<times> nat) \<times> 'a timed_scheme) option" where
  "wait_for_loop func fail_condition delay num_sec fail_func st_time w =
     (if clock w - st_time \<le> num_sec then
        (case func w of
           (Inl e, w1) \<Rightarrow> Some (Inl e, w1)
         | (Inr out, w1) \<Rightarrow>
             if out = fail_condition then
               (case run_fail_func fail_func (time_sleep delay w1) of
                  (Inl e, w2) \<Rightarrow> Some (Inl e, w2)
                | (Inr _, w2) \<Rightarrow>
                    wait_for_loop func fail_condition delay num_sec fail_func st_time w2)
             else Some (Inr (out, clock w1 - st_time), w1))
      else Some (Inl TimedOutError, w))"

text \<open>
  Modelled from the spec: the entry point of \<open>wait_for\<close>, not among the source files.
  The keyword arguments \<open>delay\<close> and \<open>fail_func\<close> are optional; \<open>delay\<close> defaults to 1
  (the specification's polling interval of one second). The start time is read once.
\<close>

definition wait_for ::
  "('a timed_scheme \<Rightarrow> (error + pyval) \<times> 'a timed_scheme) \<Rightarrow> pyval \<Rightarrow> nat option \<Rightarrow> nat \<Rightarrow>
   ('a timed_scheme \<Rightarrow> (error + unit) \<times> 'a timed_scheme) option \<Rightarrow>
   'a timed_scheme \<Rightarrow> ((error + pyval \<times> nat) \<times> 'a timed_scheme) option" where
  "wait_for func fail_condition delay num_sec fail_func w =
     wait_for_loop func fail_condition (case delay of None \<Rightarrow> 1 | Some d \<Rightarrow> d)
       num_sec fail_func (clock w) w"

subsection \<open>\<open>VMConsole.wait_for_connect\<close>\<close>

text \<open>
  The polled function is \<open>lambda: self.is_connected()\<close>; \<open>fail_condition\<close> is left at
  its default \<open>False\<close>. The method has no \<open>return\<close> statement: when \<open>wait_for\<close>
  returns, its result is dropped and the method returns \<open>None\<close>. The parameter
  \<open>timeout\<close> defaults to 5.
\<close>

definition poll_is_connected :: "VMConsole \<Rightarrow> browser \<Rightarrow> (error + pyval) \<times> browser" where
  "poll_is_connected self w =
     (case is_connected self w of
        (Inl e, w1) \<Rightarrow> (Inl e, w1)
      | (Inr r, w1) \<Rightarrow> (Inr (PyBool r), w1))"

definition wait_for_connect ::
  "VMConsole \<Rightarrow> nat option \<Rightarrow> browser \<Rightarrow> ((error + pyval) \<times> browser) option" where
  "wait_for_connect self timeout b =
     (case wait_for (poll_is_connected self)
             (PyBool False) (Some 1) (case timeout of None \<Rightarrow> 5 | Some t \<Rightarrow> t) None b of
        None \<Rightarrow> None
      | Some (Inl e, b1) \<Rightarrow> Some (Inl e, b1)
      | Some (Inr _, b1) \<Rightarrow> Some (Inr PyNone, b1))"

section \<open>\<open>cfme/infrastructure/datastore.py\<close>\<close>

record Datastore =
  name :: string
  provider :: "string option"
  type :: "string option"

subsection \<open>The page behind \<open>sel\<close>\<close>

datatype event =
    Navigated string
  | Selected string string
  | AlertAccepted
  | AlertDismissed
  | Refreshed

text \<open>
  Modelled from the spec: the module \<open>cfme.fixtures.pytest_selenium\<close> (\<open>sel\<close>) and the
  toolbar are not among the source files; the specification treats them as the opaque
  browser-automation boundary (navigation, lookup, click) whose failures are
  \<open>ElementNotFound\<close> and \<open>CandidateNotFound\<close>. The outcome of each call is therefore a
  field of the page state, indexed by the clock: whether navigating to a destination
  raises, what \<open>is_displayed\<close> answers for the quadicon of a datastore, whether
  \<open>refresh\<close> raises, what \<open>is_displayed_text\<close> answers. The page also holds the
  datastores recorded in the VMDB, the confirmation alert that is open (naming the
  datastore to remove), the datastore whose page is shown, and a log of what was done.
\<close>

record ui = timed +
  nav_outcome :: "nat \<Rightarrow> string \<Rightarrow> Datastore option \<Rightarrow> error option"
  quad_outcome :: "nat \<Rightarrow> string \<Rightarrow> error + bool"
  refresh_outcome :: "nat \<Rightarrow> error option"
  text_outcome :: "nat \<Rightarrow> string \<Rightarrow> error + bool"
  vmdb :: "string list"
  shown :: "string option"
  alert :: "string option"
  events :: "event list"

text \<open>
  Modelled from the spec: \<open>sel.force_navigate\<close> is not among the source files. It
  raises what the page state says for the destination, or shows the destination.
\<close>

definition force_navigate :: "string \<Rightarrow> Datastore option \<Rightarrow> ui \<Rightarrow> (error + unit) \<times> ui" where
  "force_navigate dest ctx u =
     (case nav_outcome u (clock u) dest ctx of
        Some e \<Rightarrow> (Inl e, u)
      | None \<Rightarrow> (Inr (), u\<lparr>shown := map_option Datastore.name ctx,
                             events := events u @ [Navigated dest]\<rparr>))"

text \<open>
  Modelled from the spec: \<open>sel.is_displayed\<close> applied to \<open>Quadicon(name, 'datastore')\<close> is not
  among the source files. It answers what the page state says: a boolean or an exception.
\<close>

definition is_displayed_quadicon :: "string \<Rightarrow> ui \<Rightarrow> error + bool" where
  "is_displayed_quadicon n u = quad_outcome u (clock u) n"

text \<open>
  Modelled from the spec: \<open>sel.is_displayed_text\<close> is not among the source files. It
  answers what the page state says: a boolean or an exception.
\<close>

definition is_displayed_text :: "string \<Rightarrow> ui \<Rightarrow> error + bool" where
  "is_displayed_text t u = text_outcome u (clock u) t"

text \<open>
  Modelled from the spec: \<open>sel.refresh\<close> is not among the source files. It raises what
  the page state says, or reloads the page.
\<close>

definition refresh :: "ui \<Rightarrow> (error + unit) \<times> ui" where
  "refresh u =
     (case refresh_outcome u (clock u) of
        Some e \<Rightarrow> (Inl e, u)
      | None \<Rightarrow> (Inr (), u\<lparr>events := events u @ [Refreshed]\<rparr>))"

text \<open>
  Modelled from the spec: the toolbar (\<open>tb.select\<close>) is not among the source files.
  \<open>cfg_btn(item, invokes_alert=True)\<close>: choosing the item of the Configuration menu
  opens the confirmation alert for the datastore shown.
\<close>

definition cfg_btn :: "string \<Rightarrow> ui \<Rightarrow> ui" where
  "cfg_btn item u =
     u\<lparr>alert := shown u, events := events u @ [Selected ''Configuration'' item]\<rparr>"

text \<open>
  Modelled from the spec: \<open>sel.handle_alert\<close> is not among the source files.
  \<open>handle_alert(cancel)\<close> dismisses the open alert when \<open>cancel\<close> is true and accepts it
  otherwise; accepting the removal alert removes the datastore from the VMDB.
\<close>

definition handle_alert :: "bool \<Rightarrow> ui \<Rightarrow> (error + unit) \<times> ui" where
  "handle_alert cancel u =
     (case alert u of
        None \<Rightarrow> (Inl NoAlertPresentException, u)
      | Some n \<Rightarrow>
          if cancel then (Inr (), u\<lparr>alert := None, events := events u @ [AlertDismissed]\<rparr>)
          else (Inr (), u\<lparr>vmdb := removeAll n (vmdb u), alert := None,
                           events := events u @ [AlertAccepted]\<rparr>))"

subsection \<open>The methods of \<open>Datastore\<close>\<close>

text \<open>\<open>delete(self, cancel=True)\<close>: an absent argument is the default \<open>True\<close>.\<close>

definition delete :: "Datastore \<Rightarrow> bool option \<Rightarrow> ui \<Rightarrow> (error + unit) \<times> ui" where
  "delete self cancel u =
     (case force_navigate ''infrastructure_datastore'' (Some self) u of
        (Inl e, u1) \<Rightarrow> (Inl e, u1)
      | (Inr _, u1) \<Rightarrow>
          handle_alert (case cancel of None \<Rightarrow> True | Some c \<Rightarrow> c)
            (cfg_btn ''Remove from the VMDB'' u1))"

text \<open>
  The property \<open>exists\<close>: \<open>True\<close> when the quadicon is displayed, \<open>False\<close> when
  \<open>NoSuchElementException\<close> is caught; when \<open>is_displayed\<close> answers false the body ends
  without a \<open>return\<close>, which is \<open>None\<close>. Any other exception propagates.
\<close>

definition exists :: "Datastore \<Rightarrow> ui \<Rightarrow> (error + pyval) \<times> ui" where
  "exists self u =
     (case force_navigate ''infrastructure_datastore'' (Some self) u of
        (Inl e, u1) \<Rightarrow>
          if e = NoSuchElementException then (Inr (PyBool False), u1) else (Inl e, u1)
      | (Inr _, u1) \<Rightarrow>
          (case is_displayed_quadicon (Datastore.name self) u1 of
             Inl e \<Rightarrow>
               if e = NoSuchElementException then (Inr (PyBool False), u1) else (Inl e, u1)
           | Inr d \<Rightarrow> if d then (Inr (PyBool True), u1) else (Inr PyNone, u1)))"



definition wait_for_delete_all :: "Datastore \<Rightarrow> ui \<Rightarrow> (error + pyval) \<times> ui" where
  "wait_for_delete_all self u =
     (case refresh u of
        (Inl e, u1) \<Rightarrow>
          if e = CandidateNotFound then (Inr (PyBool False), u1) else (Inl e, u1)
      | (Inr _, u1) \<Rightarrow>
          (case is_displayed_text ''No Records Found'' u1 of
             Inl e \<Rightarrow> if e = CandidateNotFound then (Inr (PyBool False), u1) else (Inl e, u1)
           | Inr d \<Rightarrow> if d then (Inr (PyBool True), u1) else (Inr PyNone, u1)))"

section \<open>Example sessions\<close>

text \<open>
  A console whose banner reads "Connecting" for two seconds and "Connected ..." from then
  on, whose canvas script answers \<open>url\<close>, and whose control button is present; and a
  console window whose page has no element at all.
\<close>

definition demo_console :: VMConsole where
  "demo_console =
     \<lparr>VMConsole.name = ''vm'', console_handle = ''console'', appliance_handle = ''appliance''\<rparr>"

definition demo_dom :: "string \<Rightarrow> handle \<Rightarrow> nat \<Rightarrow> string \<Rightarrow> element option" where
  "demo_dom url h t i =
     (if h = ''console'' then
        (if i = banner_id
         then Some \<lparr>el_text = (if t < 2 then ''Connecting''
                                 else ''Connected (unencrypted) to: QEMU''),
                    toDataURL = ''''\<rparr>
         else if i = canvas_id then Some \<lparr>el_text = '''', toDataURL = url\<rparr>
         else if i = ctrl_alt_del_id then Some \<lparr>el_text = '''', toDataURL = ''''\<rparr>
         else None)
      else None)"

definition demo_browser :: "string \<Rightarrow> browser" where
  "demo_browser url =
     \<lparr>clock = 0, windows = [''appliance'', ''console''], dom = demo_dom url,
      focus = ''appliance'', keys_sent = [], clicks = []\<rparr>"


text \<open>
  A datastore page on which every call succeeds and \<open>is_displayed\<close> answers \<open>shown_flag\<close>
  for every quadicon; and one on which navigating to a datastore finds no quadicon to
  click.
\<close>

definition demo_datastore :: Datastore where
  "demo_datastore = \<lparr>Datastore.name = ''ds1'', provider = None, type = None\<rparr>"

definition demo_ui :: "bool \<Rightarrow> ui" where
  "demo_ui shown_flag =
     \<lparr>clock = 0, nav_outcome = (\<lambda>t dest ctx. None),
      quad_outcome = (\<lambda>t n. Inr shown_flag), refresh_outcome = (\<lambda>t. None),
      text_outcome = (\<lambda>t s. Inr True), vmdb = [''ds1'', ''ds2''], shown = None,
      alert = None, events = []\<rparr>"

definition absent_ui :: ui where
  "absent_ui =
     \<lparr>clock = 0,
      nav_outcome = (\<lambda>t dest ctx.
         if dest = ''infrastructure_datastore'' then Some NoSuchElementException else None),
      quad_outcome = (\<lambda>t n. Inl NoSuchElementException), refresh_outcome = (\<lambda>t. None),
      text_outcome = (\<lambda>t s. Inr True), vmdb = [''ds2''], shown = None,
      alert = None, events = []\<rparr>"

section \<open>Facts about the library functions\<close>

lemma re_match_literal_prefix: "re_match_literal p s = prefix p s"
  by (induction p s rule: re_match_literal.induct) auto

lemma split_str_no_sep: "sep \<notin> set s \<Longrightarrow> split_str sep s = [s]"
  by (induction s) auto



lemma b64decode_png_signature: "b64decode ''iVBORw0KGgo='' = Inr png_signature"
  by code_simp


section \<open>The example sessions, evaluated\<close>

lemma demo_windows:
  "console_handle demo_console \<in> set (windows (demo_browser url))"
  "appliance_handle demo_console \<in> set (windows (demo_browser url))"
  by (simp_all add: demo_console_def demo_browser_def)

lemma demo_canvas:
  "dom (demo_browser url) (console_handle demo_console) (clock (demo_browser url)) canvas_id
     = Some \<lparr>el_text = '''', toDataURL = url\<rparr>"
  by (simp add: demo_console_def demo_browser_def demo_dom_def canvas_id_def banner_id_def)

lemma demo_get_banner:
  "get_banner demo_console (demo_browser url) = (Inr ''Connecting'', demo_browser url)"
  by (simp add: get_banner_def switch_to_console_def switch_to_appliance_def
      switch_to_window_def find_element_by_id_def demo_console_def demo_browser_def demo_dom_def)





section \<open>Window focus\<close>









section \<open>Connection status\<close>

text \<open>
  Claim C2: whatever banner text \<open>get_banner\<close> reads, \<open>is_connected\<close> answers true
  exactly when that text starts with \<open>Connected\<close>; the empty text does not.
\<close>

theorem is_connected_iff_banner_prefix:
  "get_banner self b = (Inr banner, b') \<Longrightarrow>
     is_connected self b = (Inr (prefix ''Connected'' banner), b') \<and>
     \<not> prefix ''Connected'' ''''"
  by (simp add: is_connected_def re_match_literal_prefix)

theorem is_connected_iff_banner_prefix_witness:
  "get_banner demo_console (demo_browser []) = (Inr ''Connecting'', demo_browser []) \<and>
   is_connected demo_console (demo_browser []) = (Inr False, demo_browser [])"
  using is_connected_iff_banner_prefix [OF demo_get_banner [of "[]"]]
    demo_get_banner [of "[]"]
  by simp

section \<open>Screen capture\<close>

text \<open>
  Claim C9: when the canvas script answers a string without a comma, \<open>get_screen\<close>
  raises \<open>IndexError\<close> at \<open>split(",")[1]\<close> (and leaves the focus on the console
  window); no decoding is attempted.
\<close>

theorem get_screen_no_comma_IndexError:
  assumes "console_handle self \<in> set (windows b)"
    and "dom b (console_handle self) (clock b) canvas_id = Some canvas"
    and "CHR '','' \<notin> set (toDataURL canvas)"
  shows "get_screen self b = (Inl IndexError, b\<lparr>focus := console_handle self\<rparr>)"
  using assms
  by (simp add: get_screen_def switch_to_console_def switch_to_window_def
      find_element_by_id_def execute_script_toDataURL_def index_list_def split_str_no_sep)

theorem get_screen_no_comma_IndexError_witness:
  "console_handle demo_console \<in> set (windows (demo_browser ''iVBORw0KGgo='')) \<and>
   dom (demo_browser ''iVBORw0KGgo='') (console_handle demo_console)
       (clock (demo_browser ''iVBORw0KGgo='')) canvas_id
     = Some \<lparr>el_text = '''', toDataURL = ''iVBORw0KGgo=''\<rparr> \<and>
   CHR '','' \<notin> set (toDataURL \<lparr>el_text = '''', toDataURL = ''iVBORw0KGgo=''\<rparr>) \<and>
   get_screen demo_console (demo_browser ''iVBORw0KGgo='')
     = (Inl IndexError, (demo_browser ''iVBORw0KGgo='')\<lparr>focus := ''console''\<rparr>)"
proof -
  have c: "CHR '','' \<notin> set (toDataURL \<lparr>el_text = '''', toDataURL = ''iVBORw0KGgo=''\<rparr>)"
    by simp
  show ?thesis
    using get_screen_no_comma_IndexError [OF demo_windows(1) demo_canvas c]
      demo_windows(1) [of "''iVBORw0KGgo=''"] demo_canvas [of "''iVBORw0KGgo=''"] c
    by (simp add: demo_console_def)
qed




section \<open>Polling\<close>




lemma wait_for_loop_retry:
  assumes "func w = (Inr fc, w1)" and "clock w - st \<le> num_sec"
    and "run_fail_func fail_func (time_sleep delay w1) = (Inr (), w2)"
  shows "wait_for_loop func fc delay num_sec fail_func st w
           = wait_for_loop func fc delay num_sec fail_func st w2"
  using assms by (subst wait_for_loop.simps) simp

lemma wait_for_loop_done:
  assumes "func w = (Inr out, w1)" and "clock w - st \<le> num_sec" and "out \<noteq> fc"
  shows "wait_for_loop func fc delay num_sec fail_func st w
           = Some (Inr (out, clock w1 - st), w1)"
  using assms by (subst wait_for_loop.simps) simp

section \<open>Waiting for the console to connect\<close>








lemma demo_is_connected:
  "is_connected demo_console ((demo_browser url)\<lparr>clock := t\<rparr>)
     = (Inr (2 \<le> t), (demo_browser url)\<lparr>clock := t\<rparr>)"
  by (simp add: is_connected_def get_banner_def switch_to_console_def switch_to_appliance_def
      switch_to_window_def find_element_by_id_def demo_console_def demo_browser_def demo_dom_def)

lemma demo_browser_clock: "(demo_browser url)\<lparr>clock := 0\<rparr> = demo_browser url"
  by (simp add: demo_browser_def)


text \<open>
  Claim C5, evaluated: with the banner turning from "Connecting" to "Connected ..." after
  two seconds, \<open>wait_for_connect(5)\<close> returns after two seconds of polling, but what it
  returns is \<open>None\<close>, which is not \<open>True\<close>; the screen captured afterwards does start
  with the PNG signature.
\<close>

theorem wait_for_connect_returns_None:
  "wait_for_connect demo_console (Some 5) (demo_browser ''data:image/png;base64,iVBORw0KGgo='')
     = Some (Inr PyNone, (demo_browser ''data:image/png;base64,iVBORw0KGgo='')\<lparr>clock := 2\<rparr>) \<and>
   \<not> py_is_True PyNone \<and>
   fst (get_screen demo_console
          ((demo_browser ''data:image/png;base64,iVBORw0KGgo='')\<lparr>clock := 2\<rparr>))
     = Inr [0x89, 0x50, 0x4E, 0x47, 0x0D, 0x0A, 0x1A, 0x0A]"
proof -
  let ?b = "demo_browser ''data:image/png;base64,iVBORw0KGgo=''"
  let ?loop = "wait_for_loop (poll_is_connected demo_console) (PyBool False) 1 5 None 0"
  have p: "poll_is_connected demo_console (?b\<lparr>clock := t\<rparr>)
             = (Inr (PyBool (2 \<le> t)), ?b\<lparr>clock := t\<rparr>)" for t
    by (simp add: poll_is_connected_def demo_is_connected)
  have s: "run_fail_func None (time_sleep 1 (?b\<lparr>clock := t\<rparr>))
             = (Inr (), ?b\<lparr>clock := Suc t\<rparr>)" for t
    by (simp add: run_fail_func_def time_sleep_def)
  have "?loop (?b\<lparr>clock := 0\<rparr>) = ?loop (?b\<lparr>clock := Suc 0\<rparr>)"
    by (rule wait_for_loop_retry [OF _ _ s]) (simp_all add: p)
  also have "\<dots> = ?loop (?b\<lparr>clock := Suc (Suc 0)\<rparr>)"
    by (rule wait_for_loop_retry [OF _ _ s]) (simp_all add: p)
  also have "\<dots> = Some (Inr (PyBool True, 2), ?b\<lparr>clock := 2\<rparr>)"
    using wait_for_loop_done [of "poll_is_connected demo_console" "?b\<lparr>clock := 2\<rparr>"
        "PyBool True" "?b\<lparr>clock := 2\<rparr>" 0 5 "PyBool False" 1 None] p [of 2]
    by (simp add: numeral_2_eq_2)
  finally have l: "?loop ?b = Some (Inr (PyBool True, 2), ?b\<lparr>clock := 2\<rparr>)"
    by (simp add: demo_browser_clock)
  have c: "clock ?b = 0"
    by (simp add: demo_browser_def)
  have w: "wait_for_connect demo_console (Some 5) ?b = Some (Inr PyNone, ?b\<lparr>clock := 2\<rparr>)"
    using l c by (simp add: wait_for_connect_def wait_for_def)
  have g: "fst (get_screen demo_console (?b\<lparr>clock := 2\<rparr>))
             = Inr [0x89, 0x50, 0x4E, 0x47, 0x0D, 0x0A, 0x1A, 0x0A]"
    by (simp add: get_screen_def switch_to_console_def switch_to_appliance_def
      switch_to_window_def find_element_by_id_def demo_console_def demo_browser_def demo_dom_def
      execute_script_toDataURL_def index_list_def b64decode_png_signature canvas_id_def
      banner_id_def png_signature_def)
  show ?thesis
    using w g by simp
qed

section \<open>Datastore pages\<close>




lemma demo_ui_exists:
  "fst (exists demo_datastore (demo_ui d)) = Inr (if d then PyBool True else PyNone)"
  by (simp add: exists_def force_navigate_def is_displayed_quadicon_def demo_ui_def)

text \<open>
  Claim C6, evaluated where it fails: navigation succeeds, \<open>is_displayed\<close> answers
  false for the quadicon (it is absent), and \<open>exists\<close> evaluates to \<open>None\<close>, which is
  not the value \<open>False\<close>. Only when \<open>NoSuchElementException\<close> is raised does
  \<open>exists\<close> evaluate to \<open>False\<close>.
\<close>

theorem exists_not_displayed_is_None:
  "nav_outcome (demo_ui False) (clock (demo_ui False)) ''infrastructure_datastore''
     (Some demo_datastore) = None \<and>
   is_displayed_quadicon (Datastore.name demo_datastore) (demo_ui False) = Inr False \<and>
   fst (exists demo_datastore (demo_ui False)) = Inr PyNone \<and>
   PyNone \<noteq> PyBool False \<and>
   fst (exists demo_datastore absent_ui) = Inr (PyBool False)"
  by (simp add: exists_def force_navigate_def is_displayed_quadicon_def demo_ui_def
      absent_ui_def)

text \<open>
  Claim C8: \<open>wait_for_delete_all\<close> returns \<open>True\<close> when the refreshed page shows
  "No Records Found", and returns \<open>False\<close> instead of raising when
  \<open>CandidateNotFound\<close> is raised by the refresh or by the lookup of the text.
\<close>

theorem wait_for_delete_all_not_found:
  "(refresh u = (Inr (), u1) \<and> is_displayed_text ''No Records Found'' u1 = Inr True
      \<longrightarrow> wait_for_delete_all self u = (Inr (PyBool True), u1)) \<and>
   (refresh u = (Inl CandidateNotFound, u2)
      \<longrightarrow> wait_for_delete_all self u = (Inr (PyBool False), u2)) \<and>
   (refresh u = (Inr (), u3) \<and> is_displayed_text ''No Records Found'' u3 = Inl CandidateNotFound
      \<longrightarrow> wait_for_delete_all self u = (Inr (PyBool False), u3))"
  by (simp add: wait_for_delete_all_def)

theorem wait_for_delete_all_not_found_witness:
  "refresh (demo_ui True) = (Inr (), (demo_ui True)\<lparr>events := [Refreshed]\<rparr>) \<and>
   is_displayed_text ''No Records Found'' ((demo_ui True)\<lparr>events := [Refreshed]\<rparr>) = Inr True \<and>
   wait_for_delete_all demo_datastore (demo_ui True)
     = (Inr (PyBool True), (demo_ui True)\<lparr>events := [Refreshed]\<rparr>) \<and>
   refresh ((demo_ui True)\<lparr>refresh_outcome := (\<lambda>t. Some CandidateNotFound)\<rparr>)
     = (Inl CandidateNotFound, (demo_ui True)\<lparr>refresh_outcome := (\<lambda>t. Some CandidateNotFound)\<rparr>) \<and>
   wait_for_delete_all demo_datastore
       ((demo_ui True)\<lparr>refresh_outcome := (\<lambda>t. Some CandidateNotFound)\<rparr>)
     = (Inr (PyBool False), (demo_ui True)\<lparr>refresh_outcome := (\<lambda>t. Some CandidateNotFound)\<rparr>) \<and>
   refresh ((demo_ui True)\<lparr>text_outcome := (\<lambda>t s. Inl CandidateNotFound)\<rparr>)
     = (Inr (), (demo_ui True)\<lparr>text_outcome := (\<lambda>t s. Inl CandidateNotFound),
                                 events := [Refreshed]\<rparr>) \<and>
   is_displayed_text ''No Records Found''
       ((demo_ui True)\<lparr>text_outcome := (\<lambda>t s. Inl CandidateNotFound), events := [Refreshed]\<rparr>)
     = Inl CandidateNotFound \<and>
   wait_for_delete_all demo_datastore
       ((demo_ui True)\<lparr>text_outcome := (\<lambda>t s. Inl CandidateNotFound)\<rparr>)
     = (Inr (PyBool False),
        (demo_ui True)\<lparr>text_outcome := (\<lambda>t s. Inl CandidateNotFound), events := [Refreshed]\<rparr>)"
proof -
  let ?u = "demo_ui True"
  let ?v = "(demo_ui True)\<lparr>refresh_outcome := (\<lambda>t. Some CandidateNotFound)\<rparr>"
  let ?x = "(demo_ui True)\<lparr>text_outcome := (\<lambda>t s. Inl CandidateNotFound)\<rparr>"
  let ?x' = "(demo_ui True)\<lparr>text_outcome := (\<lambda>t s. Inl CandidateNotFound),
                             events := [Refreshed]\<rparr>"
  have r: "refresh ?u = (Inr (), ?u\<lparr>events := [Refreshed]\<rparr>)"
    by (simp add: refresh_def demo_ui_def)
  have t: "is_displayed_text ''No Records Found'' (?u\<lparr>events := [Refreshed]\<rparr>) = Inr True"
    by (simp add: is_displayed_text_def demo_ui_def)
  have f: "refresh ?v = (Inl CandidateNotFound, ?v)"
    by (simp add: refresh_def demo_ui_def)
  have rx: "refresh ?x = (Inr (), ?x')"
    by (simp add: refresh_def demo_ui_def)
  have tx: "is_displayed_text ''No Records Found'' ?x' = Inl CandidateNotFound"
    by (simp add: is_displayed_text_def demo_ui_def)
  show ?thesis
    using wait_for_delete_all_not_found
        [where u = ?u and ?u1.0 = "?u\<lparr>events := [Refreshed]\<rparr>" and self = demo_datastore]
      wait_for_delete_all_not_found [where u = ?v and ?u2.0 = ?v and self = demo_datastore]
      wait_for_delete_all_not_found [where u = ?x and ?u3.0 = ?x' and self = demo_datastore]
      r t f rx tx
    by simp
qed

text \<open>
  Claim C10: \<open>delete()\<close> without an argument is \<open>delete(cancel=True)\<close>: after a
  successful navigation it opens the removal alert and dismisses it, and the VMDB is
  unchanged; with \<open>cancel=False\<close> the alert is accepted and the datastore is removed;
  and whenever a call of \<open>delete\<close> changes the VMDB, it was called with
  \<open>cancel=False\<close>.
\<close>

theorem delete_cancels_by_default:
  "delete self None u = delete self (Some True) u \<and>
   (nav_outcome u (clock u) ''infrastructure_datastore'' (Some self) = None \<longrightarrow>
      delete self None u =
        (Inr (), u\<lparr>shown := Some (Datastore.name self), alert := None,
                    events := events u @ [Navigated ''infrastructure_datastore'',
                       Selected ''Configuration'' ''Remove from the VMDB'', AlertDismissed]\<rparr>) \<and>
      delete self (Some False) u =
        (Inr (), u\<lparr>vmdb := removeAll (Datastore.name self) (vmdb u),
                    shown := Some (Datastore.name self), alert := None,
                    events := events u @ [Navigated ''infrastructure_datastore'',
                       Selected ''Configuration'' ''Remove from the VMDB'', AlertAccepted]\<rparr>)) \<and>
   (vmdb (snd (delete self cancel u)) \<noteq> vmdb u \<longrightarrow> cancel = Some False)"
  by (cases cancel)
     (auto simp: delete_def force_navigate_def cfg_btn_def handle_alert_def
       split: option.splits)

theorem delete_cancels_by_default_witness:
  "nav_outcome (demo_ui True) (clock (demo_ui True)) ''infrastructure_datastore''
     (Some demo_datastore) = None \<and>
   vmdb (snd (delete demo_datastore None (demo_ui True))) = [''ds1'', ''ds2''] \<and>
   vmdb (snd (delete demo_datastore (Some False) (demo_ui True))) = [''ds2''] \<and>
   vmdb (snd (delete demo_datastore (Some False) (demo_ui True))) \<noteq> vmdb (demo_ui True)"
proof -
  have n: "nav_outcome (demo_ui True) (clock (demo_ui True)) ''infrastructure_datastore''
     (Some demo_datastore) = None"
    by (simp add: demo_ui_def)
  have v: "vmdb (demo_ui True) = [''ds1'', ''ds2'']"
    by (simp add: demo_ui_def)
  have d: "Datastore.name demo_datastore = ''ds1''"
    by (simp add: demo_datastore_def)
  note t = delete_cancels_by_default
        [where self = demo_datastore and u = "demo_ui True" and cancel = "Some False",
         THEN conjunct2, THEN conjunct1, rule_format, OF n]
  show ?thesis
    using t n v d by simp
qed

section \<open>Waiting for a datastore to disappear or to appear\<close>












end
